theory Spec2Isabelle
  imports Complex_Main "HOL-Library.AList"
begin

section \<open>Python values used by website_monitor.py\<close>

text \<open>
  A Python \<open>str\<close> is a sequence of Unicode code points, and \<open>len\<close> and slicing count
  code points; a \<open>bytes\<close> value is a sequence of bytes. The text that the extractor takes
  from a page holds no surrogate code point, so \<open>str.encode('utf-8')\<close> cannot fail on it.
  A string loaded from the storage file may hold one (\<open>json.load\<close> accepts the escape of a
  lone surrogate), and such a string cannot be written to a UTF-8 file. The exceptions of the
  model are those of class \<open>Exception\<close>; an interrupt of the process is not modelled. Log
  lines (\<open>logger.info\<close>, \<open>logger.warning\<close>, \<open>logger.error\<close>) are not part of the model.
\<close>

type_synonym pystr = "nat list"
type_synonym pybytes = "char list"

definition ascii :: "string \<Rightarrow> pystr" where
  "ascii s = map of_char s"

definition startswith :: "pystr \<Rightarrow> pystr \<Rightarrow> bool" where
  "startswith s p = (take (length p) s = p)"

text \<open>The code points for which \<open>str.isspace\<close> holds: what \<open>str.strip()\<close> removes and
  what \<open>\s\<close> matches in a \<open>str\<close> pattern.\<close>

definition py_isspace :: "nat \<Rightarrow> bool" where
  "py_isspace c =
     ((0x09 \<le> c \<and> c \<le> 0x0D) \<or> (0x1C \<le> c \<and> c \<le> 0x20) \<or> c = 0x85 \<or> c = 0xA0 \<or>
      c = 0x1680 \<or> (0x2000 \<le> c \<and> c \<le> 0x200A) \<or> c = 0x2028 \<or> c = 0x2029 \<or>
      c = 0x202F \<or> c = 0x205F \<or> c = 0x3000)"

definition strip :: "pystr \<Rightarrow> pystr" where
  "strip s = rev (dropWhile py_isspace (rev (dropWhile py_isspace s)))"

text \<open>\<open>re.sub(r'\s+', ' ', s)\<close>: every maximal run of whitespace becomes one space.\<close>

function re_sub_ws :: "pystr \<Rightarrow> pystr" where
  "re_sub_ws [] = []"
| "re_sub_ws (c # cs) =
     (if py_isspace c then 0x20 # re_sub_ws (dropWhile py_isspace cs) else c # re_sub_ws cs)"
  by pat_completeness auto
termination
  by (relation "measure length") (auto simp: le_imp_less_Suc length_dropWhile_le)

subsection \<open>UTF-8\<close>

definition utf8_encode_cp :: "nat \<Rightarrow> pybytes" where
  "utf8_encode_cp c =
     (if c < 0x80 then [char_of c]
      else if c < 0x800 then [char_of (0xC0 + c div 0x40), char_of (0x80 + c mod 0x40)]
      else if c < 0x10000 then
        [char_of (0xE0 + c div 0x1000), char_of (0x80 + c div 0x40 mod 0x40),
         char_of (0x80 + c mod 0x40)]
      else
        [char_of (0xF0 + c div 0x40000), char_of (0x80 + c div 0x1000 mod 0x40),
         char_of (0x80 + c div 0x40 mod 0x40), char_of (0x80 + c mod 0x40)])"

definition utf8_encode :: "pystr \<Rightarrow> pybytes" where
  "utf8_encode s = concat (map utf8_encode_cp s)"

definition cont :: "nat \<Rightarrow> bool" where
  "cont b = (0x80 \<le> b \<and> b \<le> 0xBF)"

text \<open>The first code point of a byte sequence under the strict decoder (no overlong form,
  no surrogate, nothing above U+10FFFF), with the number of continuation bytes it used.\<close>

fun utf8_first :: "nat list \<Rightarrow> (nat \<times> nat) option" where
  "utf8_first [] = None"
| "utf8_first (b0 # bs) =
     (if b0 < 0x80 then Some (b0, 0)
      else if 0xC2 \<le> b0 \<and> b0 \<le> 0xDF then
        (case bs of
           b1 # _ \<Rightarrow> if cont b1 then Some ((b0 - 0xC0) * 0x40 + (b1 - 0x80), 1) else None
         | _ \<Rightarrow> None)
      else if 0xE0 \<le> b0 \<and> b0 \<le> 0xEF then
        (case bs of
           b1 # b2 # _ \<Rightarrow>
             if cont b1 \<and> cont b2 \<and> (b0 = 0xE0 \<longrightarrow> 0xA0 \<le> b1) \<and> (b0 = 0xED \<longrightarrow> b1 \<le> 0x9F)
             then Some ((b0 - 0xE0) * 0x1000 + (b1 - 0x80) * 0x40 + (b2 - 0x80), 2)
             else None
         | _ \<Rightarrow> None)
      else if 0xF0 \<le> b0 \<and> b0 \<le> 0xF4 then
        (case bs of
           b1 # b2 # b3 # _ \<Rightarrow>
             if cont b1 \<and> cont b2 \<and> cont b3 \<and> (b0 = 0xF0 \<longrightarrow> 0x90 \<le> b1) \<and>
                (b0 = 0xF4 \<longrightarrow> b1 \<le> 0x8F)
             then Some ((b0 - 0xF0) * 0x40000 + (b1 - 0x80) * 0x1000 + (b2 - 0x80) * 0x40 +
                        (b3 - 0x80), 3)
             else None
         | _ \<Rightarrow> None)
      else None)"

text \<open>Reading a file opened with \<open>encoding='utf-8'\<close>: \<open>None\<close> is \<open>UnicodeDecodeError\<close>.\<close>

function utf8_decode :: "pybytes \<Rightarrow> pystr option" where
  "utf8_decode bs =
     (if bs = [] then Some []
      else case utf8_first (map of_char bs) of
             None \<Rightarrow> None
           | Some (c, k) \<Rightarrow> map_option ((#) c) (utf8_decode (drop (Suc k) bs)))"
  by pat_completeness auto
termination
  by (relation "measure length") auto

text \<open>A string that a UTF-8 text file takes: \<open>f.write\<close> raises \<open>UnicodeEncodeError\<close> on a
  surrogate code point.\<close>

definition surrogate :: "nat \<Rightarrow> bool" where
  "surrogate c = (0xD800 \<le> c \<and> c \<le> 0xDFFF)"

definition encodable :: "pystr \<Rightarrow> bool" where
  "encodable s = (\<not> list_ex surrogate s)"

section \<open>Data model\<close>

text \<open>
  The store is the dictionary that \<open>json.load\<close> returns and \<open>json.dump\<close> writes: URL to
  record, a record being a dictionary from field name to string. A Python dictionary keeps
  insertion order and has one entry per key: an association list read with \<open>map_of\<close> and
  written with \<open>AList.update\<close>. A record may lack a field (the code reads with \<open>.get\<close>).
\<close>

type_synonym site = "(pystr \<times> pystr) list"
type_synonym store = "(pystr \<times> site) list"

datatype exc_class =
  IOError | JSONDecodeError | UnicodeDecodeError | UnicodeEncodeError | RequestException
  | IndexError | AttributeError | OtherException

text \<open>An exception raised by a collaborator: its class and \<open>str(e)\<close>.\<close>

type_synonym exc = "exc_class \<times> pystr"

text \<open>The storage file: absent, present but failing with an \<open>OSError\<close> when opened or
  read, or present with its bytes.\<close>

datatype file_state = Missing | Unreadable pystr | Contents pybytes

text \<open>What the extractor's HTML pipeline hands back for a page: the text of the title
  tag, if there is one, and \<open>main_content.get_text(separator=' ', strip=True)\<close>.\<close>

datatype page = Page (title_tag: "pystr option") (main_text: pystr)

text \<open>The request sent to \<open>chat.completions.create\<close>, and its reply: the list of
  choices, each with \<open>message.content\<close> (\<open>None\<close> when the message carries none).\<close>

record request =
  messages :: "(pystr \<times> pystr) list"
  model :: pystr
  temperature :: real
  max_tokens :: nat

type_synonym completion = "pystr option list"

text \<open>Every effect of a run leaves an event in the history, in order.\<close>

datatype event =
    HttpGet pystr
  | ClockRead
  | OracleRequest request
  | Sleep nat
  | SaveAttempt store

text \<open>
  The collaborators of the monitor. An answer of the network, of the oracle, of the clock
  or of the file system may depend on everything that happened before.
  \<^item> \<open>http_get\<close>: \<open>requests.get\<close> and the HTML pipeline of the extractor, up to
    \<open>get_text\<close>: the page, or the exception raised on the way;
  \<^item> \<open>groq_create\<close>: \<open>chat.completions.create\<close>: the completion, or the exception;
  \<^item> \<open>datetime_now\<close>: \<open>datetime.now().isoformat()\<close>;
  \<^item> \<open>json_loads\<close>: \<open>json.load\<close> on the decoded text of the storage file;
  \<^item> \<open>json_dump\<close>: opening the storage file for writing and \<open>json.dump\<close> into it: the
    message of the \<open>IOError\<close> and the file it leaves behind, or else the bytes that reach
    the file (all of the store, or what comes before the first string that cannot be
    encoded);
  \<^item> \<open>md5_hexdigest\<close>: \<open>hashlib.md5(b).hexdigest()\<close>.
\<close>

record env =
  http_get :: "event list \<Rightarrow> pystr \<Rightarrow> exc + page"
  groq_create :: "event list \<Rightarrow> request \<Rightarrow> exc + completion"
  datetime_now :: "event list \<Rightarrow> pystr"
  json_loads :: "pystr \<Rightarrow> exc + store"
  json_dump :: "event list \<Rightarrow> store \<Rightarrow> (pystr \<times> file_state) + pybytes"
  md5_hexdigest :: "pybytes \<Rightarrow> pystr"

text \<open>The fields of \<open>self\<close> that the methods read.\<close>

record monitor =
  self_model :: pystr

section \<open>Content extractor and fingerprint\<close>

definition get_website_content ::
  "env \<Rightarrow> event list \<Rightarrow> pystr \<Rightarrow> (pystr \<times> pystr) \<times> event list" where
  "get_website_content env h url =
     (case http_get env h url of
        Inr p \<Rightarrow>
          (let page_title = (case title_tag p of Some t \<Rightarrow> strip t | None \<Rightarrow> ascii ''No title'');
               text_content = strip (re_sub_ws (main_text p))
           in ((text_content, page_title), h @ [HttpGet url]))
      | Inl (cls, msg) \<Rightarrow>
          if cls = RequestException then (([], ascii ''Error fetching: '' @ msg), h @ [HttpGet url])
          else (([], ascii ''Error processing: '' @ msg), h @ [HttpGet url]))"

definition calculate_content_hash :: "env \<Rightarrow> pystr \<Rightarrow> pystr" where
  "calculate_content_hash env content = md5_hexdigest env (utf8_encode content)"

section \<open>State store\<close>

text \<open>The body of the \<open>try\<close> of \<open>load_stored_data\<close>: \<open>open\<close> and \<open>json.load\<close>, with the
  class of the exception raised there. The \<open>except\<close> clause catches \<open>JSONDecodeError\<close> and
  \<open>IOError\<close>; any other exception escapes.\<close>

definition open_and_load :: "env \<Rightarrow> file_state \<Rightarrow> exc_class + store" where
  "open_and_load env f =
     (case f of
        Missing \<Rightarrow> Inl IOError
      | Unreadable msg \<Rightarrow> Inl IOError
      | Contents bs \<Rightarrow>
          (case utf8_decode bs of
             None \<Rightarrow> Inl UnicodeDecodeError
           | Some txt \<Rightarrow> (case json_loads env txt of Inl (cls, msg) \<Rightarrow> Inl cls | Inr d \<Rightarrow> Inr d)))"

definition load_stored_data :: "env \<Rightarrow> file_state \<Rightarrow> exc_class + store" where
  "load_stored_data env f =
     (if f \<noteq> Missing then
        (case open_and_load env f of
           Inr d \<Rightarrow> Inr d
         | Inl cls \<Rightarrow> if cls = JSONDecodeError \<or> cls = IOError then Inr [] else Inl cls)
      else Inr [])"

text \<open>Whether every key and every value of the store can be written to the UTF-8 file.\<close>

definition store_encodable :: "store \<Rightarrow> bool" where
  "store_encodable d =
     list_all (\<lambda>(u, r). encodable u \<and> list_all (\<lambda>(k, v). encodable k \<and> encodable v) r) d"

text \<open>\<open>save_stored_data\<close> on the storage file and the history so far, with the exception
  that escapes, if any. An \<open>IOError\<close> is logged and nothing more; the
  \<open>UnicodeEncodeError\<close> that \<open>json.dump(..., ensure_ascii=False)\<close> raises on a string with
  a surrogate is not caught.\<close>

definition save_stored_data ::
  "env \<Rightarrow> store \<Rightarrow> file_state \<times> event list \<Rightarrow>
   exc_class option \<times> file_state \<times> event list" where
  "save_stored_data env data w =
     (case w of (f, h) \<Rightarrow>
        (case json_dump env h data of
           Inl (msg, f') \<Rightarrow> (None, f', h @ [SaveAttempt data])
         | Inr bs \<Rightarrow>
             if store_encodable data then (None, Contents bs, h @ [SaveAttempt data])
             else (Some UnicodeEncodeError, Contents bs, h @ [SaveAttempt data])))"

section \<open>Change oracle client\<close>

definition max_chars :: nat where
  "max_chars = 8000"

definition truncated :: "pystr \<Rightarrow> pystr" where
  "truncated s = (if length s > max_chars then take max_chars s @ ascii ''...'' else s)"

definition nl :: pystr where
  "nl = [0x0A]"

definition prompt :: "pystr \<Rightarrow> pystr \<Rightarrow> pystr \<Rightarrow> pystr \<Rightarrow> pystr" where
  "prompt site_title url old_truncated new_truncated =
     nl @ ascii ''You are analyzing changes between two versions of a website. '' @ nl
     @ ascii ''Website: '' @ site_title @ ascii '' ('' @ url @ ascii '')'' @ nl
     @ nl
     @ ascii ''Please compare the old and new content and provide a concise summary of changes in this exact format:'' @ nl
     @ ascii ''- [Website Name]: [Brief description of changes]'' @ nl
     @ nl
     @ ascii ''If there are no meaningful changes, respond with:'' @ nl
     @ ascii ''- [Website Name]: No significant updates detected.'' @ nl
     @ nl
     @ ascii ''Focus on:'' @ nl
     @ ascii ''1. New articles, posts, or content sections'' @ nl
     @ ascii ''2. Updated information or announcements  '' @ nl
     @ ascii ''3. New features or functionality'' @ nl
     @ ascii ''4. Removed content (if significant)'' @ nl
     @ nl
     @ ascii ''Ignore minor formatting changes, timestamps, or navigation updates.'' @ nl
     @ nl
     @ ascii ''OLD CONTENT:'' @ nl
     @ old_truncated @ nl
     @ nl
     @ ascii ''NEW CONTENT:'' @ nl
     @ new_truncated @ nl"

definition system_message :: pystr where
  "system_message = ascii ''You are a helpful assistant that analyzes website changes and provides concise summaries. Always respond with a single bullet point starting with the website name.''"

definition oracle_request :: "monitor \<Rightarrow> pystr \<Rightarrow> pystr \<Rightarrow> pystr \<Rightarrow> pystr \<Rightarrow> request" where
  "oracle_request self url old_content new_content site_title =
     \<lparr>messages =
        [(ascii ''system'', system_message),
         (ascii ''user'', prompt site_title url (truncated old_content) (truncated new_content))],
      model = self_model self, temperature = 0.1, max_tokens = 200\<rparr>"

text \<open>The body of the \<open>try\<close>, after the request is built: the call, then
  \<open>choices[0].message.content.strip()\<close> and the bullet check. \<open>Inl\<close> is an exception
  raised there, with \<open>str(e)\<close>.\<close>

definition read_reply :: "exc + completion \<Rightarrow> exc + pystr" where
  "read_reply outcome =
     (case outcome of
        Inl e \<Rightarrow> Inl e
      | Inr choices \<Rightarrow>
          (case choices of
             [] \<Rightarrow> Inl (IndexError, ascii ''list index out of range'')
           | c # _ \<Rightarrow>
               (case c of
                  None \<Rightarrow>
                    Inl (AttributeError,
                         [0x27] @ ascii ''NoneType'' @ [0x27] @ ascii '' object has no attribute ''
                         @ [0x27] @ ascii ''strip'' @ [0x27])
                | Some content \<Rightarrow>
                    (let response = strip content
                     in Inr (if \<not> startswith response (ascii ''-'')
                             then ascii ''- '' @ response else response)))))"

definition compare_with_ai ::
  "env \<Rightarrow> monitor \<Rightarrow> event list \<Rightarrow> pystr \<Rightarrow> pystr \<Rightarrow> pystr \<Rightarrow> pystr \<Rightarrow> pystr \<times> event list" where
  "compare_with_ai env self h url old_content new_content site_title =
     (let req = oracle_request self url old_content new_content site_title;
          h' = h @ [OracleRequest req]
      in case read_reply (groq_create env h req) of
           Inr response \<Rightarrow> (response, h')
         | Inl (cls, msg) \<Rightarrow>
             (ascii ''- '' @ site_title @ ascii '': Error analyzing changes - '' @ msg, h'))"

section \<open>Monitor orchestrator\<close>

text \<open>The local variables of \<open>monitor_websites\<close> and the history of effects so far.\<close>

record run_state =
  stored_data :: store
  results :: "pystr list"
  history :: "event list"

text \<open>\<open>d.update({k1: v1, ...})\<close>: the keys are written in order.\<close>

definition dict_update :: "(pystr \<times> pystr) list \<Rightarrow> site \<Rightarrow> site" where
  "dict_update kvs d = fold (\<lambda>(k, v). AList.update k v) kvs d"

text \<open>\<open>stored_data[url].get(name)\<close> for a URL of the store.\<close>

definition lookup_field :: "store \<Rightarrow> pystr \<Rightarrow> pystr \<Rightarrow> pystr option" where
  "lookup_field d url name = (case map_of d url of None \<Rightarrow> None | Some r \<Rightarrow> map_of r name)"

text \<open>The body of the loop over \<open>websites\<close>. Dictionary displays evaluate their values
  left to right, so each \<open>datetime.now()\<close> is a clock reading of its own.\<close>

definition process_url :: "env \<Rightarrow> monitor \<Rightarrow> pystr \<Rightarrow> run_state \<Rightarrow> run_state" where
  "process_url env self url st =
     (case get_website_content env (history st) url of
        ((current_content, site_title), h1) \<Rightarrow>
          if current_content = [] then
            st\<lparr>results := results st @ [ascii ''- '' @ url @ ascii '': Failed to fetch content''],
               history := h1\<rparr>
          else
            (let current_hash = calculate_content_hash env current_content;
                 st2 =
                   (case map_of (stored_data st) url of
                      None \<Rightarrow>
                        (let last_updated = datetime_now env h1;
                             first_seen = datetime_now env (h1 @ [ClockRead])
                         in st\<lparr>stored_data :=
                                 AList.update url
                                   [(ascii ''content'', current_content),
                                    (ascii ''hash'', current_hash),
                                    (ascii ''title'', site_title),
                                    (ascii ''last_updated'', last_updated),
                                    (ascii ''first_seen'', first_seen)]
                                   (stored_data st),
                               results := results st @
                                 [ascii ''- '' @ site_title
                                  @ ascii '': Added to monitoring (baseline established)''],
                               history := h1 @ [ClockRead, ClockRead]\<rparr>)
                    | Some r \<Rightarrow>
                        (let stored_hash = map_of r (ascii ''hash'');
                             stored_content =
                               (case map_of r (ascii ''content'') of Some c \<Rightarrow> c | None \<Rightarrow> [])
                         in if Some current_hash = stored_hash then
                              st\<lparr>results := results st @
                                   [ascii ''- '' @ site_title @ ascii '': No updates detected''],
                                 history := h1\<rparr>
                            else
                              (case compare_with_ai env self h1 url stored_content
                                      current_content site_title of
                                 (change_summary, h2) \<Rightarrow>
                                   st\<lparr>stored_data :=
                                        AList.update url
                                          (dict_update
                                             [(ascii ''content'', current_content),
                                              (ascii ''hash'', current_hash),
                                              (ascii ''title'', site_title),
                                              (ascii ''last_updated'', datetime_now env h2)]
                                             r)
                                          (stored_data st),
                                      results := results st @ [change_summary],
                                      history := h2 @ [ClockRead]\<rparr>)))
             in st2\<lparr>history := history st2 @ [Sleep 1]\<rparr>))"

fun monitor_loop :: "env \<Rightarrow> monitor \<Rightarrow> pystr list \<Rightarrow> run_state \<Rightarrow> run_state" where
  "monitor_loop env self [] st = st"
| "monitor_loop env self (url # urls) st = monitor_loop env self urls (process_url env self url st)"

text \<open>A run on the storage file \<open>f\<close> after the history \<open>h\<close>: the exception that escapes,
  or the result lines, with the storage file and the history it leaves.\<close>

definition monitor_websites ::
  "env \<Rightarrow> monitor \<Rightarrow> pystr list \<Rightarrow> file_state \<times> event list \<Rightarrow>
   (exc_class + pystr list) \<times> file_state \<times> event list" where
  "monitor_websites env self websites w =
     (case w of (f, h) \<Rightarrow>
        (case load_stored_data env f of
           Inl cls \<Rightarrow> (Inl cls, f, h)
         | Inr stored \<Rightarrow>
             (let st = monitor_loop env self websites
                         \<lparr>stored_data = stored, results = [], history = h\<rparr>
              in case save_stored_data env (stored_data st) (f, history st) of
                   (None, w') \<Rightarrow> (Inr (results st), w')
                 | (Some cls, w') \<Rightarrow> (Inl cls, w'))))"

text \<open>The URLs fetched in a history, in order.\<close>

fun fetched :: "event list \<Rightarrow> pystr list" where
  "fetched [] = []"
| "fetched (HttpGet u # es) = u # fetched es"
| "fetched (e # es) = fetched es"

text \<open>A record whose \<open>hash\<close> field is the fingerprint of its \<open>content\<close> field.\<close>

definition hash_consistent :: "env \<Rightarrow> site \<Rightarrow> bool" where
  "hash_consistent env r =
     (case map_of r (ascii ''content'') of
        None \<Rightarrow> False
      | Some c \<Rightarrow> map_of r (ascii ''hash'') = Some (calculate_content_hash env c))"

section \<open>A concrete setting\<close>

text \<open>
  The two texts of the course page, with their MD5 digests as \<open>hashlib\<close> prints them
  (the digest of the empty input for any other argument), a clock that moves on by one
  microsecond with every event, a course page that answers and a site that is down, and an
  oracle that replies without a bullet.
\<close>

definition monday :: pystr where
  "monday = ascii ''Course starts Monday.''"

definition tuesday :: pystr where
  "tuesday = ascii ''Course starts Tuesday. New TA added.''"

definition md5_known :: "pybytes \<Rightarrow> pystr" where
  "md5_known bs =
     (if bs = ''Course starts Monday.'' then ascii ''e2a598601d7e5d0f2cb2ce56ec5784e5''
      else if bs = ''Course starts Tuesday. New TA added.''
        then ascii ''476ac51636c4ddc6a69b31d0c2a8a80e''
      else ascii ''d41d8cd98f00b204e9800998ecf8427e'')"

definition course_url :: pystr where
  "course_url = ascii ''https://www.cs.virginia.edu/~up3f/cs4750/''"

definition down_url :: pystr where
  "down_url = ascii ''https://yumeng5.github.io/teaching/2025-fall-cs4770''"

definition tick :: "event list \<Rightarrow> pystr" where
  "tick h = ascii ''2025-09-01T08:00:00.00000'' @ [0x30 + length h]"

definition course_env :: env where
  "course_env =
     \<lparr>http_get = (\<lambda>h u. if u = down_url then Inl (RequestException, ascii ''timed out'')
                        else Inr (Page (Some (ascii '' CS 4750 ''))
                                       (ascii ''Course starts  Tuesday. New TA added.''))),
      groq_create = (\<lambda>h r. Inr [Some (ascii ''CS 4750: the start moved to Tuesday.'')]),
      datetime_now = tick,
      json_loads = (\<lambda>s. Inl (JSONDecodeError, ascii ''Expecting value'')),
      json_dump = (\<lambda>h d. Inr []),
      md5_hexdigest = md5_known\<rparr>"

definition failing_oracle_env :: env where
  "failing_oracle_env =
     course_env\<lparr>groq_create := (\<lambda>h r. Inl (OtherException, ascii ''Connection error.''))\<rparr>"

definition course_monitor :: monitor where
  "course_monitor = \<lparr>self_model = ascii ''llama3-8b-8192''\<rparr>"

definition monday_record :: site where
  "monday_record =
     [(ascii ''content'', monday),
      (ascii ''hash'', ascii ''e2a598601d7e5d0f2cb2ce56ec5784e5''),
      (ascii ''title'', ascii ''CS 4750''),
      (ascii ''last_updated'', ascii ''2025-08-25T08:00:00.000001''),
      (ascii ''first_seen'', ascii ''2025-08-25T08:00:00.000002'')]"

definition tuesday_record :: site where
  "tuesday_record =
     [(ascii ''content'', tuesday),
      (ascii ''hash'', ascii ''476ac51636c4ddc6a69b31d0c2a8a80e''),
      (ascii ''title'', ascii ''CS 4750''),
      (ascii ''last_updated'', ascii ''2025-08-25T08:00:00.000001''),
      (ascii ''first_seen'', ascii ''2025-08-25T08:00:00.000002'')]"

text \<open>A storage file that is valid JSON and holds the escape of a lone surrogate, with the
  store that \<open>json.load\<close> makes of it.\<close>

definition ml_url :: pystr where
  "ml_url = ascii ''https://qiyanjun.github.io/2025Fall-UVA-CS-MachineLearningDeep/''"

definition surrogate_json :: pystr where
  "surrogate_json =
     ascii ''{'' @ [0x22] @ ml_url @ [0x22] @ ascii '': {'' @ [0x22] @ ascii ''content''
     @ [0x22] @ ascii '': '' @ [0x22, 0x5C] @ ascii ''ud800'' @ [0x22] @ ascii ''}}''"

definition surrogate_store :: store where
  "surrogate_store = [(ml_url, [(ascii ''content'', [0xD800])])]"

text \<open>What \<open>json.dump(..., indent=2, ensure_ascii=False)\<close> has written of that store when
  it reaches the string with the surrogate.\<close>

definition surrogate_written :: pystr where
  "surrogate_written =
     ascii ''{'' @ [0x0A] @ ascii ''  '' @ [0x22] @ ml_url @ [0x22] @ ascii '': {'' @ [0x0A]
     @ ascii ''    '' @ [0x22] @ ascii ''content'' @ [0x22] @ ascii '': ''"

definition surrogate_env :: env where
  "surrogate_env =
     course_env\<lparr>json_loads := (\<lambda>s. if s = surrogate_json then Inr surrogate_store
                                    else Inl (JSONDecodeError, ascii ''Expecting value'')),
                json_dump := (\<lambda>h d. Inr (utf8_encode surrogate_written))\<rparr>"

definition start :: "store \<Rightarrow> run_state" where
  "start d = \<lparr>stored_data = d, results = [], history = []\<rparr>"

section \<open>Basic facts\<close>

lemma update_fresh: "map_of al k = None \<Longrightarrow> AList.update k v al = al @ [(k, v)]"
  by (induction al) (auto split: if_splits)

lemma fetched_append: "fetched (xs @ ys) = fetched xs @ fetched ys"
  by (induction xs rule: fetched.induct) simp_all

lemma startswith_bullet: "startswith (ascii ''- '' @ s) (ascii ''-'')"
  by (simp add: startswith_def ascii_def)

lemma read_reply_bullet: "read_reply outcome = Inr r \<Longrightarrow> startswith r (ascii ''-'')"
  by (auto simp: read_reply_def Let_def startswith_bullet
           split: sum.splits list.splits option.splits if_splits)

lemma compare_with_ai_history:
  "snd (compare_with_ai env self h url old new title) =
     h @ [OracleRequest (oracle_request self url old new title)]"
  by (simp add: compare_with_ai_def Let_def split: sum.splits prod.splits)

lemma get_website_content_history: "snd (get_website_content env h url) = h @ [HttpGet url]"
  by (auto simp: get_website_content_def Let_def split: sum.splits prod.splits)

lemma get_website_content_eq:
  "fst (get_website_content env h url) = (c, t) \<Longrightarrow>
   get_website_content env h url = ((c, t), h @ [HttpGet url])"
  using get_website_content_history [of env h url]
  by (cases "get_website_content env h url") simp

lemma get_website_content_error:
  "http_get env h url = Inl e \<Longrightarrow> fst (fst (get_website_content env h url)) = []"
  by (cases e) (simp add: get_website_content_def)

lemma get_website_content_blank:
  "http_get env h url = Inr p \<Longrightarrow> strip (re_sub_ws (main_text p)) = [] \<Longrightarrow>
   fst (fst (get_website_content env h url)) = []"
  by (simp add: get_website_content_def Let_def)

subsection \<open>The four branches of the loop body\<close>

lemma process_url_failed:
  assumes "fst (get_website_content env (history st) url) = ([], title)"
  shows "process_url env self url st =
     st\<lparr>results := results st @ [ascii ''- '' @ url @ ascii '': Failed to fetch content''],
        history := history st @ [HttpGet url]\<rparr>"
  by (simp add: process_url_def get_website_content_eq [OF assms])

lemma process_url_new:
  assumes "fst (get_website_content env (history st) url) = (content, title)"
      and "content \<noteq> []"
      and "map_of (stored_data st) url = None"
  shows "process_url env self url st =
     st\<lparr>stored_data := stored_data st @
          [(url, [(ascii ''content'', content),
                  (ascii ''hash'', calculate_content_hash env content),
                  (ascii ''title'', title),
                  (ascii ''last_updated'', datetime_now env (history st @ [HttpGet url])),
                  (ascii ''first_seen'', datetime_now env (history st @ [HttpGet url, ClockRead]))])],
        results := results st @
          [ascii ''- '' @ title @ ascii '': Added to monitoring (baseline established)''],
        history := history st @ [HttpGet url, ClockRead, ClockRead, Sleep 1]\<rparr>"
  using assms(2,3)
  by (simp add: process_url_def get_website_content_eq [OF assms(1)] Let_def update_fresh)

lemma process_url_unchanged:
  assumes "fst (get_website_content env (history st) url) = (content, title)"
      and "content \<noteq> []"
      and "map_of (stored_data st) url = Some r"
      and "map_of r (ascii ''hash'') = Some (calculate_content_hash env content)"
  shows "process_url env self url st =
     st\<lparr>results := results st @ [ascii ''- '' @ title @ ascii '': No updates detected''],
        history := history st @ [HttpGet url, Sleep 1]\<rparr>"
  using assms(2,3,4)
  by (simp add: process_url_def get_website_content_eq [OF assms(1)] Let_def)

lemma process_url_changed:
  assumes "fst (get_website_content env (history st) url) = (content, title)"
      and "content \<noteq> []"
      and "map_of (stored_data st) url = Some r"
      and "map_of r (ascii ''hash'') \<noteq> Some (calculate_content_hash env content)"
      and "old = (case map_of r (ascii ''content'') of Some c \<Rightarrow> c | None \<Rightarrow> [])"
      and "h1 = history st @ [HttpGet url]"
      and "req = oracle_request self url old content title"
  shows "process_url env self url st =
     st\<lparr>stored_data :=
          AList.update url
            (dict_update
               [(ascii ''content'', content),
                (ascii ''hash'', calculate_content_hash env content),
                (ascii ''title'', title),
                (ascii ''last_updated'', datetime_now env (h1 @ [OracleRequest req]))]
               r)
            (stored_data st),
        results := results st @ [fst (compare_with_ai env self h1 url old content title)],
        history := h1 @ [OracleRequest req, ClockRead, Sleep 1]\<rparr>"
proof -
  obtain line where c:
    "compare_with_ai env self h1 url old content title = (line, h1 @ [OracleRequest req])"
    using compare_with_ai_history [of env self h1 url old content title]
    by (cases "compare_with_ai env self h1 url old content title") (simp add: assms(7))
  have ne: "Some (calculate_content_hash env content) \<noteq> map_of r (ascii ''hash'')"
    using assms(4) by auto
  show ?thesis
    using assms(2,3) ne
    by (simp add: process_url_def get_website_content_eq [OF assms(1)] Let_def
        assms(5) [symmetric] assms(6) [symmetric] c)
qed

lemma process_url_cases:
  obtains (failed) title where "fst (get_website_content env (history st) url) = ([], title)"
  | (new) content title where "fst (get_website_content env (history st) url) = (content, title)"
      "content \<noteq> []" "map_of (stored_data st) url = None"
  | (unchanged) content title r where
      "fst (get_website_content env (history st) url) = (content, title)"
      "content \<noteq> []" "map_of (stored_data st) url = Some r"
      "map_of r (ascii ''hash'') = Some (calculate_content_hash env content)"
  | (changed) content title r where
      "fst (get_website_content env (history st) url) = (content, title)"
      "content \<noteq> []" "map_of (stored_data st) url = Some r"
      "map_of r (ascii ''hash'') \<noteq> Some (calculate_content_hash env content)"
proof -
  obtain content title where g: "fst (get_website_content env (history st) url) = (content, title)"
    by (cases "fst (get_website_content env (history st) url)") auto
  show thesis
  proof (cases "content = []")
    case True
    with g failed show ?thesis by simp
  next
    case ne: False
    show ?thesis
    proof (cases "map_of (stored_data st) url")
      case None
      with g ne new show ?thesis by simp
    next
      case (Some r)
      with g ne unchanged changed show ?thesis by blast
    qed
  qed
qed

lemma process_url_results:
  "length (results (process_url env self url st)) = Suc (length (results st))"
  by (cases env st url rule: process_url_cases)
     (simp_all add: process_url_failed process_url_new process_url_unchanged
        process_url_changed [OF _ _ _ _ refl refl refl])

lemma process_url_fetched:
  "fetched (history (process_url env self url st)) = fetched (history st) @ [url]"
  by (cases env st url rule: process_url_cases)
     (simp_all add: process_url_failed process_url_new process_url_unchanged
        process_url_changed [OF _ _ _ _ refl refl refl] fetched_append)

lemma monitor_loop_results:
  "length (results (monitor_loop env self urls st)) = length (results st) + length urls"
  by (induction urls arbitrary: st) (simp_all add: process_url_results)

lemma monitor_loop_fetched:
  "fetched (history (monitor_loop env self urls st)) = fetched (history st) @ urls"
  by (induction urls arbitrary: st) (simp_all add: process_url_fetched)

lemma dict_update_written:
  "map_of (dict_update
      [(ascii ''content'', c), (ascii ''hash'', hh), (ascii ''title'', t), (ascii ''last_updated'', lu)] r) k =
   (if k = ascii ''last_updated'' then Some lu
    else if k = ascii ''title'' then Some t
    else if k = ascii ''hash'' then Some hh
    else if k = ascii ''content'' then Some c
    else map_of r k)"
  by (simp add: dict_update_def AList.update_conv')

lemma field_names_distinct:
  "ascii ''content'' \<noteq> ascii ''hash''" "ascii ''content'' \<noteq> ascii ''title''"
  "ascii ''content'' \<noteq> ascii ''last_updated''" "ascii ''content'' \<noteq> ascii ''first_seen''"
  "ascii ''hash'' \<noteq> ascii ''content''" "ascii ''hash'' \<noteq> ascii ''title''"
  "ascii ''hash'' \<noteq> ascii ''last_updated''" "ascii ''hash'' \<noteq> ascii ''first_seen''"
  "ascii ''title'' \<noteq> ascii ''content''" "ascii ''title'' \<noteq> ascii ''hash''"
  "ascii ''title'' \<noteq> ascii ''last_updated''" "ascii ''title'' \<noteq> ascii ''first_seen''"
  "ascii ''last_updated'' \<noteq> ascii ''content''" "ascii ''last_updated'' \<noteq> ascii ''hash''"
  "ascii ''last_updated'' \<noteq> ascii ''title''" "ascii ''last_updated'' \<noteq> ascii ''first_seen''"
  "ascii ''first_seen'' \<noteq> ascii ''content''" "ascii ''first_seen'' \<noteq> ascii ''hash''"
  "ascii ''first_seen'' \<noteq> ascii ''title''" "ascii ''first_seen'' \<noteq> ascii ''last_updated''"
  by (simp_all add: ascii_def)

lemma map_of_append_fresh:
  "map_of al k = None \<Longrightarrow>
   map_of (al @ [(k, v)]) u = (if u = k then Some v else map_of al u)"
  using update_fresh [of al k v, symmetric] by (simp add: AList.update_conv')

lemma process_url_store:
  "map_of (stored_data (process_url env self url st)) u = map_of (stored_data st) u \<or>
   (\<exists>r. map_of (stored_data (process_url env self url st)) u = Some r \<and> hash_consistent env r)"
proof (cases env st url rule: process_url_cases)
  case (failed title)
  then show ?thesis by (simp add: process_url_failed)
next
  case (new content title)
  then show ?thesis
    by (cases "u = url")
       (simp_all add: process_url_new hash_consistent_def field_names_distinct
          map_of_append_fresh del: map_of_append)
next
  case (unchanged content title r)
  then show ?thesis by (simp add: process_url_unchanged)
next
  case (changed content title r)
  then show ?thesis
    by (cases "u = url")
       (simp_all add: process_url_changed [OF changed refl refl refl] hash_consistent_def
          AList.update_conv' dict_update_written field_names_distinct)
qed

lemma monitor_loop_store:
  "map_of (stored_data (monitor_loop env self urls st)) u = map_of (stored_data st) u \<or>
   (\<exists>r. map_of (stored_data (monitor_loop env self urls st)) u = Some r \<and> hash_consistent env r)"
proof (induction urls arbitrary: st)
  case Nil
  then show ?case by simp
next
  case (Cons url urls)
  from Cons.IH [of "process_url env self url st"] process_url_store [of env self url st u]
  show ?case by auto
qed

subsection \<open>The concrete setting, evaluated\<close>

lemmas setting_defs = course_env_def course_url_def down_url_def tuesday_def monday_def tick_def
  course_monitor_def start_def md5_known_def failing_oracle_env_def monday_record_def
  tuesday_record_def

lemma course_page:
  "fst (get_website_content course_env h course_url) = (tuesday, ascii ''CS 4750'')"
  by (simp add: get_website_content_def setting_defs ascii_def strip_def py_isspace_def)

lemma down_page:
  "fst (get_website_content course_env h down_url) = ([], ascii ''Error fetching: timed out'')"
  by (simp add: get_website_content_def setting_defs ascii_def)

lemma hash_tuesday:
  "calculate_content_hash course_env tuesday = ascii ''476ac51636c4ddc6a69b31d0c2a8a80e''"
  by (simp add: calculate_content_hash_def setting_defs ascii_def utf8_encode_def utf8_encode_cp_def char_of_def bit_0)

lemma tuesday_nonempty: "tuesday \<noteq> []"
  by (simp add: tuesday_def ascii_def)

subsection \<open>The loop and the store\<close>

lemma monitor_loop_append:
  "monitor_loop env self (us @ vs) st = monitor_loop env self vs (monitor_loop env self us st)"
  by (induction us arbitrary: st) simp_all

lemma process_url_results_append:
  "results (process_url env self url st) =
     results st @ [last (results (process_url env self url st))]"
  by (cases env st url rule: process_url_cases)
     (simp_all add: process_url_failed process_url_new process_url_unchanged
        process_url_changed [OF _ _ _ _ refl refl refl])

lemma monitor_loop_results_prefix:
  "take (length (results st)) (results (monitor_loop env self urls st)) = results st"
proof (induction urls arbitrary: st)
  case Nil
  then show ?case by simp
next
  case (Cons url urls)
  have "take (length (results st)) (results (monitor_loop env self (url # urls) st)) =
      take (length (results st))
        (take (length (results (process_url env self url st)))
           (results (monitor_loop env self urls (process_url env self url st))))"
    by (simp add: process_url_results min_def)
  also have "\<dots> = take (length (results st)) (results (process_url env self url st))"
    by (simp only: Cons.IH)
  also have "\<dots> = results st"
    by (subst process_url_results_append) simp
  finally show ?case .
qed

lemma monitor_loop_line:
  "results (monitor_loop env self (us @ u # vs) st) ! (length (results st) + length us) =
     last (results (process_url env self u (monitor_loop env self us st)))"
proof -
  let ?mid = "monitor_loop env self us st"
  let ?next = "process_url env self u ?mid"
  have n: "length (results ?mid) = length (results st) + length us"
    by (rule monitor_loop_results)
  have "results (monitor_loop env self (us @ u # vs) st) ! (length (results st) + length us) =
      take (length (results ?next)) (results (monitor_loop env self vs ?next)) !
        (length (results st) + length us)"
    by (simp add: monitor_loop_append process_url_results n)
  also have "\<dots> = results ?next ! (length (results st) + length us)"
    by (simp only: monitor_loop_results_prefix)
  also have "\<dots> = last (results ?next)"
    by (subst process_url_results_append) (simp add: n nth_append)
  finally show ?thesis .
qed

lemma load_stored_data_handled:
  "load_stored_data env Missing = Inr []"
  "load_stored_data env (Unreadable msg) = Inr []"
  "utf8_decode bs = Some txt \<Longrightarrow> json_loads env txt = Inl (JSONDecodeError, m) \<Longrightarrow>
     load_stored_data env (Contents bs) = Inr []"
  "utf8_decode bs = Some txt \<Longrightarrow> json_loads env txt = Inr d \<Longrightarrow>
     load_stored_data env (Contents bs) = Inr d"
  by (simp_all add: load_stored_data_def open_and_load_def)

lemma course_batch:
  "monitor_loop course_env course_monitor [down_url, course_url]
     \<lparr>stored_data = [], results = [], history = []\<rparr> =
   \<lparr>stored_data =
      [(course_url,
        [(ascii ''content'', tuesday),
         (ascii ''hash'', ascii ''476ac51636c4ddc6a69b31d0c2a8a80e''),
         (ascii ''title'', ascii ''CS 4750''),
         (ascii ''last_updated'', ascii ''2025-09-01T08:00:00.000002''),
         (ascii ''first_seen'', ascii ''2025-09-01T08:00:00.000003'')])],
    results =
      [ascii ''- https://yumeng5.github.io/teaching/2025-fall-cs4770: Failed to fetch content'',
       ascii ''- CS 4750: Added to monitoring (baseline established)''],
    history = [HttpGet down_url, HttpGet course_url, ClockRead, ClockRead, Sleep 1]\<rparr>"
proof -
  have 1: "process_url course_env course_monitor down_url
      \<lparr>stored_data = [], results = [], history = []\<rparr> =
      \<lparr>stored_data = [],
       results = [ascii ''- '' @ down_url @ ascii '': Failed to fetch content''],
       history = [HttpGet down_url]\<rparr>"
    by (simp add: process_url_failed [OF down_page])
  have t: "datetime_now course_env [HttpGet down_url, HttpGet course_url] =
      ascii ''2025-09-01T08:00:00.000002''"
    "datetime_now course_env [HttpGet down_url, HttpGet course_url, ClockRead] =
      ascii ''2025-09-01T08:00:00.000003''"
    by (simp_all add: course_env_def tick_def ascii_def)
  have u: "ascii ''- '' @ down_url @ ascii '': Failed to fetch content'' =
      ascii ''- https://yumeng5.github.io/teaching/2025-fall-cs4770: Failed to fetch content''"
    by (simp add: down_url_def ascii_def)
  have 2: "process_url course_env course_monitor course_url
      \<lparr>stored_data = [],
       results = [ascii ''- '' @ down_url @ ascii '': Failed to fetch content''],
       history = [HttpGet down_url]\<rparr> =
      \<lparr>stored_data =
         [(course_url,
           [(ascii ''content'', tuesday),
            (ascii ''hash'', ascii ''476ac51636c4ddc6a69b31d0c2a8a80e''),
            (ascii ''title'', ascii ''CS 4750''),
            (ascii ''last_updated'', ascii ''2025-09-01T08:00:00.000002''),
            (ascii ''first_seen'', ascii ''2025-09-01T08:00:00.000003'')])],
       results =
         [ascii ''- https://yumeng5.github.io/teaching/2025-fall-cs4770: Failed to fetch content'',
          ascii ''- CS 4750: Added to monitoring (baseline established)''],
       history = [HttpGet down_url, HttpGet course_url, ClockRead, ClockRead, Sleep 1]\<rparr>"
    by (simp add: process_url_new [OF course_page tuesday_nonempty] hash_tuesday t u)
       (simp add: ascii_def)
  show ?thesis
    by (simp add: 1 2)
qed

subsection \<open>Loading and saving\<close>

lemma utf8_decode_ascii:
  "list_all (\<lambda>c. c < 0x80) s \<Longrightarrow> utf8_decode (utf8_encode s) = Some s"
proof (induction s)
  case Nil
  then show ?case by (simp add: utf8_encode_def)
next
  case (Cons c s)
  then have c: "c < 0x80" and s: "utf8_decode (utf8_encode s) = Some s"
    by simp_all
  have e: "utf8_encode (c # s) = char_of c # utf8_encode s"
    using c by (simp add: utf8_encode_def utf8_encode_cp_def)
  have m: "c mod 256 = c"
    using c by simp
  show ?case
    by (subst utf8_decode.simps) (simp add: e m c s del: utf8_decode.simps)
qed

lemma surrogate_json_ascii: "list_all (\<lambda>c. c < 0x80) surrogate_json"
  by (simp add: surrogate_json_def ml_url_def ascii_def)

lemma surrogate_store_loaded:
  "load_stored_data surrogate_env (Contents (utf8_encode surrogate_json)) = Inr surrogate_store"
  by (simp add: load_stored_data_def open_and_load_def utf8_decode_ascii [OF surrogate_json_ascii]
      surrogate_env_def del: utf8_decode.simps)

lemma surrogate_store_not_encodable: "\<not> store_encodable (surrogate_store @ d)"
  by (simp add: store_encodable_def surrogate_store_def encodable_def surrogate_def)

lemma save_stored_data_history:
  "snd (snd (save_stored_data env d (f, k))) = k @ [SaveAttempt d]"
  by (simp add: save_stored_data_def split: sum.splits prod.splits)

lemma save_stored_data_raises:
  "fst (save_stored_data env d (f, k)) =
     (case json_dump env k d of
        Inl e \<Rightarrow> None
      | Inr bs \<Rightarrow> if store_encodable d then None else Some UnicodeEncodeError)"
  by (simp add: save_stored_data_def split: sum.splits prod.splits)

lemma monitor_websites_loaded:
  assumes "load_stored_data env f = Inr stored"
      and "final = monitor_loop env self websites \<lparr>stored_data = stored, results = [], history = h\<rparr>"
  shows "fst (monitor_websites env self websites (f, h)) =
           (case fst (save_stored_data env (stored_data final) (f, history final)) of
              None \<Rightarrow> Inr (results final)
            | Some cls \<Rightarrow> Inl cls)"
    and "snd (snd (monitor_websites env self websites (f, h))) =
           history final @ [SaveAttempt (stored_data final)]"
  using save_stored_data_history [of env "stored_data final" f "history final"]
  by (auto simp: monitor_websites_def assms(1) Let_def assms(2) [symmetric]
           split: prod.splits option.splits)

lemma get_website_content_collaborators:
  "http_get env' = http_get env \<Longrightarrow> get_website_content env' h url = get_website_content env h url"
  by (simp add: get_website_content_def)

lemma process_url_collaborators:
  assumes "http_get env' = http_get env" and "groq_create env' = groq_create env"
      and "datetime_now env' = datetime_now env" and "md5_hexdigest env' = md5_hexdigest env"
  shows "process_url env' self url st = process_url env self url st"
proof -
  have c: "compare_with_ai env' = compare_with_ai env"
    by (intro ext) (simp add: compare_with_ai_def assms(2))
  have m: "calculate_content_hash env' = calculate_content_hash env"
    by (intro ext) (simp add: calculate_content_hash_def assms(4))
  show ?thesis
    unfolding process_url_def get_website_content_collaborators [OF assms(1)] c m assms(3) ..
qed

lemma monitor_loop_collaborators:
  assumes "http_get env' = http_get env" and "groq_create env' = groq_create env"
      and "datetime_now env' = datetime_now env" and "md5_hexdigest env' = md5_hexdigest env"
  shows "monitor_loop env' self urls st = monitor_loop env self urls st"
  by (induction urls arbitrary: st) (simp_all add: process_url_collaborators [OF assms])

lemma course_batch_from:
  assumes "map_of d course_url = None"
  shows "monitor_loop course_env course_monitor [down_url, course_url]
     \<lparr>stored_data = d, results = [], history = []\<rparr> =
   \<lparr>stored_data = d @
      [(course_url,
        [(ascii ''content'', tuesday),
         (ascii ''hash'', ascii ''476ac51636c4ddc6a69b31d0c2a8a80e''),
         (ascii ''title'', ascii ''CS 4750''),
         (ascii ''last_updated'', ascii ''2025-09-01T08:00:00.000002''),
         (ascii ''first_seen'', ascii ''2025-09-01T08:00:00.000003'')])],
    results =
      [ascii ''- https://yumeng5.github.io/teaching/2025-fall-cs4770: Failed to fetch content'',
       ascii ''- CS 4750: Added to monitoring (baseline established)''],
    history = [HttpGet down_url, HttpGet course_url, ClockRead, ClockRead, Sleep 1]\<rparr>"
proof -
  have 1: "process_url course_env course_monitor down_url
      \<lparr>stored_data = d, results = [], history = []\<rparr> =
      \<lparr>stored_data = d,
       results = [ascii ''- '' @ down_url @ ascii '': Failed to fetch content''],
       history = [HttpGet down_url]\<rparr>"
    by (simp add: process_url_failed [OF down_page])
  have t: "datetime_now course_env [HttpGet down_url, HttpGet course_url] =
      ascii ''2025-09-01T08:00:00.000002''"
    "datetime_now course_env [HttpGet down_url, HttpGet course_url, ClockRead] =
      ascii ''2025-09-01T08:00:00.000003''"
    by (simp_all add: course_env_def tick_def ascii_def)
  have u: "ascii ''- '' @ down_url @ ascii '': Failed to fetch content'' =
      ascii ''- https://yumeng5.github.io/teaching/2025-fall-cs4770: Failed to fetch content''"
    by (simp add: down_url_def ascii_def)
  have 2: "process_url course_env course_monitor course_url
      \<lparr>stored_data = d,
       results = [ascii ''- '' @ down_url @ ascii '': Failed to fetch content''],
       history = [HttpGet down_url]\<rparr> =
      \<lparr>stored_data = d @
         [(course_url,
           [(ascii ''content'', tuesday),
            (ascii ''hash'', ascii ''476ac51636c4ddc6a69b31d0c2a8a80e''),
            (ascii ''title'', ascii ''CS 4750''),
            (ascii ''last_updated'', ascii ''2025-09-01T08:00:00.000002''),
            (ascii ''first_seen'', ascii ''2025-09-01T08:00:00.000003'')])],
       results =
         [ascii ''- https://yumeng5.github.io/teaching/2025-fall-cs4770: Failed to fetch content'',
          ascii ''- CS 4750: Added to monitoring (baseline established)''],
       history = [HttpGet down_url, HttpGet course_url, ClockRead, ClockRead, Sleep 1]\<rparr>"
    using assms
    by (simp add: process_url_new [OF course_page tuesday_nonempty] hash_tuesday t u)
       (simp add: ascii_def)
  show ?thesis
    by (simp add: 1 2)
qed

lemma surrogate_batch:
  "monitor_loop surrogate_env course_monitor [down_url, course_url]
     \<lparr>stored_data = surrogate_store, results = [], history = []\<rparr> =
   \<lparr>stored_data = surrogate_store @
      [(course_url,
        [(ascii ''content'', tuesday),
         (ascii ''hash'', ascii ''476ac51636c4ddc6a69b31d0c2a8a80e''),
         (ascii ''title'', ascii ''CS 4750''),
         (ascii ''last_updated'', ascii ''2025-09-01T08:00:00.000002''),
         (ascii ''first_seen'', ascii ''2025-09-01T08:00:00.000003'')])],
    results =
      [ascii ''- https://yumeng5.github.io/teaching/2025-fall-cs4770: Failed to fetch content'',
       ascii ''- CS 4750: Added to monitoring (baseline established)''],
    history = [HttpGet down_url, HttpGet course_url, ClockRead, ClockRead, Sleep 1]\<rparr>"
proof -
  have n: "map_of surrogate_store course_url = None"
    by (simp add: surrogate_store_def ml_url_def course_url_def ascii_def)
  have "monitor_loop surrogate_env course_monitor [down_url, course_url]
      \<lparr>stored_data = surrogate_store, results = [], history = []\<rparr> =
    monitor_loop course_env course_monitor [down_url, course_url]
      \<lparr>stored_data = surrogate_store, results = [], history = []\<rparr>"
    by (rule monitor_loop_collaborators) (simp_all add: surrogate_env_def)
  then show ?thesis
    by (simp only: course_batch_from [OF n])
qed

subsection \<open>The oracle client\<close>

lemma course_oracle_line:
  "fst (compare_with_ai course_env self h url old new title) =
     ascii ''- CS 4750: the start moved to Tuesday.''"
  by (simp add: compare_with_ai_def read_reply_def Let_def course_env_def strip_def
      py_isspace_def startswith_def ascii_def)

lemma truncated_long: "max_chars < length s \<Longrightarrow> truncated s = take max_chars s @ ascii ''...''"
  by (simp add: truncated_def)

lemma truncated_short: "length s \<le> max_chars \<Longrightarrow> truncated s = s"
  by (simp add: truncated_def)

lemma length_truncated:
  "length (truncated s) = (if max_chars < length s then max_chars + 3 else length s)"
  by (simp add: truncated_def ascii_def)

lemma compare_with_ai_bullet:
  "startswith (fst (compare_with_ai env self h url old new title)) (ascii ''-'')"
  by (auto simp: compare_with_ai_def Let_def startswith_bullet
           split: sum.splits prod.splits dest: read_reply_bullet)

lemma compare_with_ai_reply:
  "groq_create env h (oracle_request self url old new title) = Inr (Some content # rest) \<Longrightarrow>
   fst (compare_with_ai env self h url old new title) =
     (if \<not> startswith (strip content) (ascii ''-'') then ascii ''- '' @ strip content
      else strip content)"
  by (simp add: compare_with_ai_def read_reply_def Let_def)

lemma compare_with_ai_error:
  "read_reply (groq_create env h (oracle_request self url old new title)) = Inl (cls, msg) \<Longrightarrow>
   fst (compare_with_ai env self h url old new title) =
     ascii ''- '' @ title @ ascii '': Error analyzing changes - '' @ msg"
  by (simp add: compare_with_ai_def Let_def)

section \<open>The claims\<close>

subsection \<open>C1: a URL seen for the first time\<close>





subsection \<open>C2: an unchanged page\<close>

text \<open>
  C2. For a URL that is in the store, whose fetch returns non-empty content and whose new
  fingerprint equals the stored \<open>hash\<close>, the loop body appends the line
  \<open>- <title>: No updates detected\<close>, and the only effects are the fetch and the pause: no
  request goes to the oracle, and the store is exactly what it was, so \<open>last_updated\<close> is
  not refreshed.
\<close>

theorem C2_unchanged_untouched:
  assumes "map_of (stored_data st) url = Some r"
      and "fst (get_website_content env (history st) url) = (content, title)"
      and "content \<noteq> []"
      and "map_of r (ascii ''hash'') = Some (calculate_content_hash env content)"
  shows "process_url env self url st =
           st\<lparr>results := results st @ [ascii ''- '' @ title @ ascii '': No updates detected''],
              history := history st @ [HttpGet url, Sleep 1]\<rparr>"
  by (rule process_url_unchanged [OF assms(2,3,1,4)])

text \<open>The course page is visited again with the text that is stored.\<close>

theorem C2_unchanged_untouched_witness:
  "map_of (stored_data (start [(course_url, tuesday_record)])) course_url = Some tuesday_record
   \<and> fst (get_website_content course_env (history (start [(course_url, tuesday_record)]))
            course_url) = (tuesday, ascii ''CS 4750'')
   \<and> tuesday \<noteq> []
   \<and> map_of tuesday_record (ascii ''hash'') = Some (calculate_content_hash course_env tuesday)
   \<and> process_url course_env course_monitor course_url (start [(course_url, tuesday_record)]) =
       \<lparr>stored_data = [(course_url, tuesday_record)],
        results = [ascii ''- CS 4750: No updates detected''],
        history = [HttpGet course_url, Sleep 1]\<rparr>"
proof -
  have a: "map_of (stored_data (start [(course_url, tuesday_record)])) course_url =
      Some tuesday_record"
    by (simp add: start_def)
  have b: "fst (get_website_content course_env (history (start [(course_url, tuesday_record)]))
      course_url) = (tuesday, ascii ''CS 4750'')"
    by (rule course_page)
  have c: "map_of tuesday_record (ascii ''hash'') = Some (calculate_content_hash course_env tuesday)"
    by (simp add: tuesday_record_def hash_tuesday field_names_distinct)
  from C2_unchanged_untouched [OF a b tuesday_nonempty c, of course_monitor] a b c
    tuesday_nonempty
  show ?thesis
    by (simp add: start_def ascii_def)
qed

subsection \<open>C3: what is submitted to the oracle\<close>

text \<open>
  C3, as amended. The request that \<open>compare_with_ai\<close> sends carries the old and the new
  text, each cut on its own: a text longer than \<open>max_chars\<close> characters becomes its first
  \<open>max_chars\<close> characters followed by the three-character marker \<open>...\<close>, a text of at most
  \<open>max_chars\<close> characters is submitted as it is, and a submitted text has at most
  \<open>max_chars + 3\<close> characters.
\<close>

theorem C3_truncation:
  "snd (compare_with_ai env self h url old new title) =
     h @ [OracleRequest
            \<lparr>messages =
               [(ascii ''system'', system_message),
                (ascii ''user'', prompt title url (truncated old) (truncated new))],
             model = self_model self, temperature = 0.1, max_tokens = 200\<rparr>]
   \<and> (max_chars < length s \<longrightarrow> truncated s = take max_chars s @ ascii ''...'')
   \<and> (length s \<le> max_chars \<longrightarrow> truncated s = s)
   \<and> length (truncated s) \<le> max_chars + 3"
  by (simp add: compare_with_ai_history oracle_request_def truncated_long truncated_short
      length_truncated)

text \<open>A text of 8001 characters and the stored text of the course page.\<close>

theorem C3_truncation_witness:
  "max_chars < length (replicate 8001 (0x61::nat))
   \<and> truncated (replicate 8001 0x61) = replicate 8000 0x61 @ ascii ''...''
   \<and> length monday \<le> max_chars
   \<and> truncated monday = monday
   \<and> length (truncated (replicate 8001 (0x61::nat))) \<le> max_chars + 3"
  using C3_truncation [of course_env course_monitor "[]" course_url monday tuesday
                          "ascii ''CS 4750''" "replicate 8001 0x61"]
        C3_truncation [of course_env course_monitor "[]" course_url monday tuesday
                          "ascii ''CS 4750''" monday]
  by (simp add: max_chars_def monday_def ascii_def)

text \<open>
  C3 as stated fails: the marker comes on top of the budget, so a text of 8001 characters is
  submitted as 8003 characters, more than the budget of 8000.
\<close>

theorem C3_counterexample:
  "max_chars = 8000
   \<and> length (replicate 8001 (0x61::nat)) = 8001
   \<and> length (truncated (replicate 8001 (0x61::nat))) = 8003
   \<and> \<not> length (truncated (replicate 8001 (0x61::nat))) \<le> max_chars"
  by (simp add: length_truncated max_chars_def)

subsection \<open>C4: the returned line is a bullet\<close>

text \<open>
  C4. Whatever the inputs and whatever the oracle does, the line \<open>compare_with_ai\<close>
  returns starts with \<open>-\<close>. A reply whose stripped text does not start with \<open>-\<close> gets
  \<open>- \<close> in front of it; a reply that does is returned stripped. Every exception raised in
  the \<open>try\<close> (by the call to the oracle, by \<open>choices[0]\<close> on an empty list, by
  \<open>.strip()\<close> on an absent content) is turned into the line
  \<open>- <title>: Error analyzing changes - <message>\<close>, so that none reaches the caller.
\<close>

theorem C4_always_a_bullet:
  "startswith (fst (compare_with_ai env self h url old new title)) (ascii ''-'')
   \<and> (\<forall>content rest.
        groq_create env h (oracle_request self url old new title) = Inr (Some content # rest)
        \<and> \<not> startswith (strip content) (ascii ''-'')
        \<longrightarrow> fst (compare_with_ai env self h url old new title) = ascii ''- '' @ strip content)
   \<and> (\<forall>content rest.
        groq_create env h (oracle_request self url old new title) = Inr (Some content # rest)
        \<and> startswith (strip content) (ascii ''-'')
        \<longrightarrow> fst (compare_with_ai env self h url old new title) = strip content)
   \<and> (\<forall>cls msg.
        read_reply (groq_create env h (oracle_request self url old new title)) = Inl (cls, msg)
        \<longrightarrow> fst (compare_with_ai env self h url old new title) =
            ascii ''- '' @ title @ ascii '': Error analyzing changes - '' @ msg)
   \<and> (\<forall>e. read_reply (Inl e) = Inl e)
   \<and> read_reply (Inr []) = Inl (IndexError, ascii ''list index out of range'')
   \<and> (\<forall>rest. \<exists>msg. read_reply (Inr (None # rest)) = Inl (AttributeError, msg))"
  using compare_with_ai_bullet [of env self h url old new title]
    compare_with_ai_reply [of env h self url old new title]
    compare_with_ai_error [of env h self url old new title]
  by (auto simp: read_reply_def)

text \<open>An oracle that cannot be reached, and an oracle that replies without a bullet.\<close>

theorem C4_always_a_bullet_witness:
  "groq_create failing_oracle_env [] (oracle_request course_monitor course_url monday tuesday
      (ascii ''CS 4750'')) = Inl (OtherException, ascii ''Connection error.'')
   \<and> fst (compare_with_ai failing_oracle_env course_monitor [] course_url monday tuesday
             (ascii ''CS 4750'')) =
       ascii ''- CS 4750: Error analyzing changes - Connection error.''
   \<and> groq_create course_env [] (oracle_request course_monitor course_url monday tuesday
        (ascii ''CS 4750'')) = Inr [Some (ascii ''CS 4750: the start moved to Tuesday.'')]
   \<and> \<not> startswith (strip (ascii ''CS 4750: the start moved to Tuesday.'')) (ascii ''-'')
   \<and> fst (compare_with_ai course_env course_monitor [] course_url monday tuesday
             (ascii ''CS 4750'')) = ascii ''- CS 4750: the start moved to Tuesday.''
   \<and> startswith (ascii ''- CS 4750: the start moved to Tuesday.'') (ascii ''-'')"
proof -
  have a: "groq_create failing_oracle_env [] (oracle_request course_monitor course_url monday
      tuesday (ascii ''CS 4750'')) = Inl (OtherException, ascii ''Connection error.'')"
    by (simp add: failing_oracle_env_def)
  have b: "groq_create course_env [] (oracle_request course_monitor course_url monday tuesday
        (ascii ''CS 4750'')) = Inr [Some (ascii ''CS 4750: the start moved to Tuesday.'')]"
    by (simp add: course_env_def)
  have c: "strip (ascii ''CS 4750: the start moved to Tuesday.'') =
      ascii ''CS 4750: the start moved to Tuesday.''"
    by (simp add: strip_def ascii_def py_isspace_def)
  have d: "\<not> startswith (strip (ascii ''CS 4750: the start moved to Tuesday.'')) (ascii ''-'')"
    by (simp add: c) (simp add: startswith_def ascii_def)
  from C4_always_a_bullet [of failing_oracle_env course_monitor "[]" course_url monday tuesday
      "ascii ''CS 4750''"]
  have e: "fst (compare_with_ai failing_oracle_env course_monitor [] course_url monday tuesday
             (ascii ''CS 4750'')) =
       ascii ''- '' @ ascii ''CS 4750'' @ ascii '': Error analyzing changes - '' @ ascii ''Connection error.''"
    using a by simp
  from C4_always_a_bullet [of course_env course_monitor "[]" course_url monday tuesday
      "ascii ''CS 4750''"] b d
  have f: "fst (compare_with_ai course_env course_monitor [] course_url monday tuesday
             (ascii ''CS 4750'')) = ascii ''- '' @ strip (ascii ''CS 4750: the start moved to Tuesday.'')"
    by blast
  from C4_always_a_bullet [of course_env course_monitor "[]" course_url monday tuesday
      "ascii ''CS 4750''"]
  have g: "startswith (fst (compare_with_ai course_env course_monitor [] course_url monday tuesday
             (ascii ''CS 4750''))) (ascii ''-'')"
    by blast
  show ?thesis
    using a b d g by (simp add: e f c) (simp add: ascii_def)
qed

subsection \<open>C5: the stored hash is the digest of the stored content\<close>

text \<open>
  C5. After the loop has run over any list of URLs from any state, every record of the
  store is either the record that was there before, or a record that has a \<open>content\<close>
  field and whose \<open>hash\<close> field is the fingerprint of that content: what the orchestrator
  writes (baseline or update) always pairs the content with its own digest.
\<close>

theorem C5_written_hash_is_digest:
  "map_of (stored_data (monitor_loop env self urls st)) u = map_of (stored_data st) u \<or>
   (\<exists>r. map_of (stored_data (monitor_loop env self urls st)) u = Some r \<and>
        map_of r (ascii ''content'') \<noteq> None \<and>
        map_of r (ascii ''hash'') =
          map_option (calculate_content_hash env) (map_of r (ascii ''content'')))"
  using monitor_loop_store [of env self urls st u]
  by (auto simp: hash_consistent_def split: option.splits)

text \<open>The record written for the course page in a run over the two sites.\<close>

theorem C5_written_hash_is_digest_witness:
  "map_of (stored_data (monitor_loop course_env course_monitor [down_url, course_url] (start [])))
     course_url \<noteq> map_of (stored_data (start [])) course_url
   \<and> (\<exists>r. map_of (stored_data (monitor_loop course_env course_monitor [down_url, course_url]
                 (start []))) course_url = Some r \<and>
          map_of r (ascii ''content'') = Some tuesday \<and>
          map_of r (ascii ''hash'') = Some (calculate_content_hash course_env tuesday))"
proof -
  have a: "map_of (stored_data (monitor_loop course_env course_monitor [down_url, course_url]
      (start []))) course_url \<noteq> map_of (stored_data (start [])) course_url"
    by (simp add: start_def course_batch del: monitor_loop.simps)
  have c: "map_of (stored_data (monitor_loop course_env course_monitor [down_url, course_url]
      (start []))) course_url = Some r \<Longrightarrow> map_of r (ascii ''content'') = Some tuesday" for r
    by (auto simp: start_def course_batch simp del: monitor_loop.simps)
  from C5_written_hash_is_digest [of course_env course_monitor "[down_url, course_url]"
      "start []" course_url] a
  obtain r where r: "map_of (stored_data (monitor_loop course_env course_monitor
      [down_url, course_url] (start []))) course_url = Some r"
    "map_of r (ascii ''hash'') =
       map_option (calculate_content_hash course_env) (map_of r (ascii ''content''))"
    by blast
  from r c [OF r(1)] a show ?thesis by simp
qed

subsection \<open>C6: one failing URL does not stop the batch\<close>

text \<open>
  C6 fails on the code. The storage file is valid JSON and one of its strings is the escape
  of a lone surrogate; the run is over the site that is down and the course page. The loop
  does what the claim says: the failed fetch gives its line, the course page is still
  processed, and there is one line per URL. Then \<open>save_stored_data\<close> is attempted on the
  store, \<open>json.dump\<close> raises \<open>UnicodeEncodeError\<close> at the string it cannot encode, the
  \<open>except IOError\<close> clause does not catch it, and \<open>monitor_websites\<close> raises instead of
  returning the lines; the storage file is left cut at that string.
\<close>

theorem C6_save_raises_after_loop:
  "load_stored_data surrogate_env (Contents (utf8_encode surrogate_json)) = Inr surrogate_store
   \<and> fst (fst (get_website_content surrogate_env [] down_url)) = []
   \<and> results (monitor_loop surrogate_env course_monitor [down_url, course_url]
         \<lparr>stored_data = surrogate_store, results = [], history = []\<rparr>) =
       [ascii ''- https://yumeng5.github.io/teaching/2025-fall-cs4770: Failed to fetch content'',
        ascii ''- CS 4750: Added to monitoring (baseline established)'']
   \<and> monitor_websites surrogate_env course_monitor [down_url, course_url]
         (Contents (utf8_encode surrogate_json), []) =
       (Inl UnicodeEncodeError,
        Contents (utf8_encode surrogate_written),
        [HttpGet down_url, HttpGet course_url, ClockRead, ClockRead, Sleep 1,
         SaveAttempt
           (surrogate_store @
            [(course_url,
              [(ascii ''content'', tuesday),
               (ascii ''hash'', ascii ''476ac51636c4ddc6a69b31d0c2a8a80e''),
               (ascii ''title'', ascii ''CS 4750''),
               (ascii ''last_updated'', ascii ''2025-09-01T08:00:00.000002''),
               (ascii ''first_seen'', ascii ''2025-09-01T08:00:00.000003'')])])])"
proof -
  have g: "fst (fst (get_website_content surrogate_env [] down_url)) = []"
proof -
    have "get_website_content surrogate_env [] down_url =
        get_website_content course_env [] down_url"
      by (rule get_website_content_collaborators) (simp add: surrogate_env_def)
    then show ?thesis
      by (simp add: down_page)
  qed
  have d: "json_dump surrogate_env k x = Inr (utf8_encode surrogate_written)" for k x
    by (simp add: surrogate_env_def)
  have m: "monitor_websites surrogate_env course_monitor [down_url, course_url]
         (Contents (utf8_encode surrogate_json), []) =
       (Inl UnicodeEncodeError,
        Contents (utf8_encode surrogate_written),
        [HttpGet down_url, HttpGet course_url, ClockRead, ClockRead, Sleep 1,
         SaveAttempt
           (surrogate_store @
            [(course_url,
              [(ascii ''content'', tuesday),
               (ascii ''hash'', ascii ''476ac51636c4ddc6a69b31d0c2a8a80e''),
               (ascii ''title'', ascii ''CS 4750''),
               (ascii ''last_updated'', ascii ''2025-09-01T08:00:00.000002''),
               (ascii ''first_seen'', ascii ''2025-09-01T08:00:00.000003'')])])])"
    by (simp add: monitor_websites_def surrogate_store_loaded surrogate_batch save_stored_data_def
        d surrogate_store_not_encodable del: monitor_loop.simps)
  show ?thesis
    by (simp add: surrogate_store_loaded g surrogate_batch m del: monitor_loop.simps)
qed

subsection \<open>C7: a changed page\<close>

text \<open>
  C7. For a URL that is in the store, whose fetch returns non-empty content and whose new
  fingerprint differs from the stored \<open>hash\<close>, the loop body calls \<open>compare_with_ai\<close> with
  the stored text (the empty text if the record has none) and the fetched text, which sends
  one request to the oracle, appends the line it returns, and overwrites \<open>content\<close>,
  \<open>hash\<close>, \<open>title\<close> and \<open>last_updated\<close> of the record. \<open>first_seen\<close> stays what it was,
  and so does every other record.
\<close>

theorem C7_changed_overwritten:
  assumes "map_of (stored_data st) url = Some r"
      and "fst (get_website_content env (history st) url) = (content, title)"
      and "content \<noteq> []"
      and "map_of r (ascii ''hash'') \<noteq> Some (calculate_content_hash env content)"
      and "old = (case map_of r (ascii ''content'') of Some c \<Rightarrow> c | None \<Rightarrow> [])"
      and "h1 = history st @ [HttpGet url]"
      and "req = oracle_request self url old content title"
      and "d = stored_data (process_url env self url st)"
  shows "history (process_url env self url st) = h1 @ [OracleRequest req, ClockRead, Sleep 1]
       \<and> results (process_url env self url st) =
           results st @ [fst (compare_with_ai env self h1 url old content title)]
       \<and> lookup_field d url (ascii ''content'') = Some content
       \<and> lookup_field d url (ascii ''hash'') = Some (calculate_content_hash env content)
       \<and> lookup_field d url (ascii ''title'') = Some title
       \<and> lookup_field d url (ascii ''last_updated'') =
           Some (datetime_now env (h1 @ [OracleRequest req]))
       \<and> lookup_field d url (ascii ''first_seen'') = map_of r (ascii ''first_seen'')
       \<and> (\<forall>u. u \<noteq> url \<longrightarrow> map_of d u = map_of (stored_data st) u)"
  unfolding assms(8) process_url_changed [OF assms(2,3,1,4,5,6,7)]
  by (simp add: lookup_field_def AList.update_conv' dict_update_written field_names_distinct)

text \<open>The course page is visited again after its text has changed.\<close>

theorem C7_changed_overwritten_witness:
  "map_of (stored_data (start [(course_url, monday_record)])) course_url = Some monday_record
   \<and> fst (get_website_content course_env (history (start [(course_url, monday_record)]))
            course_url) = (tuesday, ascii ''CS 4750'')
   \<and> tuesday \<noteq> []
   \<and> map_of monday_record (ascii ''hash'') \<noteq> Some (calculate_content_hash course_env tuesday)
   \<and> map_of monday_record (ascii ''content'') = Some monday
   \<and> history (process_url course_env course_monitor course_url
                 (start [(course_url, monday_record)])) =
       [HttpGet course_url,
        OracleRequest (oracle_request course_monitor course_url monday tuesday (ascii ''CS 4750'')),
        ClockRead, Sleep 1]
   \<and> results (process_url course_env course_monitor course_url
                 (start [(course_url, monday_record)])) =
       [ascii ''- CS 4750: the start moved to Tuesday.'']
   \<and> lookup_field (stored_data (process_url course_env course_monitor course_url
                 (start [(course_url, monday_record)]))) course_url (ascii ''content'') =
       Some tuesday
   \<and> lookup_field (stored_data (process_url course_env course_monitor course_url
                 (start [(course_url, monday_record)]))) course_url (ascii ''hash'') =
       Some (ascii ''476ac51636c4ddc6a69b31d0c2a8a80e'')
   \<and> lookup_field (stored_data (process_url course_env course_monitor course_url
                 (start [(course_url, monday_record)]))) course_url (ascii ''last_updated'') =
       Some (ascii ''2025-09-01T08:00:00.000002'')
   \<and> lookup_field (stored_data (process_url course_env course_monitor course_url
                 (start [(course_url, monday_record)]))) course_url (ascii ''first_seen'') =
       Some (ascii ''2025-08-25T08:00:00.000002'')"
proof -
  let ?st = "start [(course_url, monday_record)]"
  have a: "map_of (stored_data ?st) course_url = Some monday_record"
    by (simp add: start_def)
  have b: "fst (get_website_content course_env (history ?st) course_url) =
      (tuesday, ascii ''CS 4750'')"
    by (rule course_page)
  have c: "map_of monday_record (ascii ''hash'') \<noteq> Some (calculate_content_hash course_env tuesday)"
    by (simp add: monday_record_def hash_tuesday field_names_distinct) (simp add: ascii_def)
  have d: "map_of monday_record (ascii ''content'') = Some monday"
    by (simp add: monday_record_def)
  have e: "map_of monday_record (ascii ''first_seen'') = Some (ascii ''2025-08-25T08:00:00.000002'')"
    by (simp add: monday_record_def field_names_distinct)
  have t: "datetime_now course_env [HttpGet course_url, OracleRequest q] =
      ascii ''2025-09-01T08:00:00.000002''" for q
    by (simp add: course_env_def tick_def ascii_def)
  have h: "history ?st = []"
    by (simp add: start_def)
  have r: "results ?st = []"
    by (simp add: start_def)
  from C7_changed_overwritten [OF a b tuesday_nonempty c refl refl refl refl, of course_monitor]
  show ?thesis
    using a b c tuesday_nonempty
    by (simp add: d e t h r course_oracle_line hash_tuesday)
qed

subsection \<open>C8: the pause between URLs\<close>

text \<open>
  C8 fails on the code. In a run over the site that is down and then the course page, the
  second fetch follows the first with no pause in between: the \<open>continue\<close> of the failure
  branch skips the \<open>time.sleep(1)\<close> at the end of the loop body.
\<close>

theorem C8_no_pause_after_failed_fetch:
  "fst (fst (get_website_content course_env [] down_url)) = []
   \<and> history (monitor_loop course_env course_monitor [down_url, course_url] (start [])) =
       [HttpGet down_url, HttpGet course_url, ClockRead, ClockRead, Sleep 1]"
  by (simp add: start_def course_batch down_page del: monitor_loop.simps)

subsection \<open>C9: loading the store\<close>

text \<open>
  C9 fails on the code. A storage file whose bytes are not UTF-8 (here the single byte
  \<open>0xFF\<close>) makes \<open>load_stored_data\<close> raise \<open>UnicodeDecodeError\<close>, which is neither a
  \<open>JSONDecodeError\<close> nor an \<open>IOError\<close>: it escapes, and so the whole run raises before
  any URL is processed. (A missing file, a file that cannot be opened and a file that is not
  JSON do give the empty store: \<open>load_stored_data_handled\<close>.)
\<close>

theorem C9_undecodable_storage_raises:
  "load_stored_data env (Contents [CHR 0xFF]) = Inl UnicodeDecodeError
   \<and> monitor_websites env self websites (Contents [CHR 0xFF], h) =
       (Inl UnicodeDecodeError, Contents [CHR 0xFF], h)"
  by (simp add: monitor_websites_def load_stored_data_def open_and_load_def)

subsection \<open>C10: a fetch that returns nothing\<close>

text \<open>
  C10. When \<open>get_website_content\<close> returns the empty text for a URL, the loop body appends
  the line \<open>- <url>: Failed to fetch content\<close>, with the URL and not the title, and its only
  effect is the fetch: the store is left as it is, whatever it holds for that URL, and the
  line does not depend on it. The empty text comes from an exception in the extractor
  (\<open>get_website_content_error\<close>) as well as from a page whose normalized text is empty
  (\<open>get_website_content_blank\<close>).
\<close>

theorem C10_failed_fetch:
  assumes "fst (fst (get_website_content env (history st) url)) = []"
  shows "process_url env self url st =
           st\<lparr>results := results st @ [ascii ''- '' @ url @ ascii '': Failed to fetch content''],
              history := history st @ [HttpGet url]\<rparr>"
proof -
  from assms obtain title where
    "fst (get_website_content env (history st) url) = ([], title)"
    by (cases "fst (get_website_content env (history st) url)") auto
  then show ?thesis by (rule process_url_failed)
qed

text \<open>The site that is down, with a baseline record already in the store.\<close>

theorem C10_failed_fetch_witness:
  "fst (fst (get_website_content course_env (history (start [(down_url, monday_record)]))
              down_url)) = []
   \<and> process_url course_env course_monitor down_url (start [(down_url, monday_record)]) =
       \<lparr>stored_data = [(down_url, monday_record)],
        results = [ascii ''- https://yumeng5.github.io/teaching/2025-fall-cs4770: Failed to fetch content''],
        history = [HttpGet down_url]\<rparr>"
proof -
  have a: "fst (fst (get_website_content course_env (history (start [(down_url, monday_record)]))
      down_url)) = []"
    by (simp add: down_page)
  from C10_failed_fetch [OF a, of course_monitor] a
  show ?thesis
    by (simp add: start_def) (simp add: down_url_def ascii_def)
qed

end
